theory Spec2Isabelle
  imports Complex_Main "HOL-Library.Word" "HOL-Library.Signed_Division"
begin

unbundle bit_operations_syntax

section \<open>Machine types\<close>

text \<open>
  \<^verbatim>\<open>int\<close> and \<^verbatim>\<open>unsigned int\<close> are 32-bit words; a signed value is read with
  \<open>sint\<close>.  Addition wraps around, which is what the usual two's complement targets do;
  the C++ standard leaves signed overflow undefined, so every statement below that
  reads a sum as an integer says in which range it holds.  The signed \<^verbatim>\<open>/\<close> of C++
  truncates towards zero (\<open>sdiv\<close> on \<open>int\<close>), the signed \<^verbatim>\<open>>\<close> compares the
  \<open>sint\<close> readings.
\<close>

type_synonym c_int = "32 word"
type_synonym c_uint = "32 word"
type_synonym GLuint = "32 word"

definition c_div :: "c_int \<Rightarrow> c_int \<Rightarrow> c_int" where
  "c_div a b = word_of_int (sint a sdiv sint b)"

definition c_gt :: "c_int \<Rightarrow> c_int \<Rightarrow> bool" where
  "c_gt a b = (sint b < sint a)"

text \<open>
  A floating-point literal of the source is carried as the decimal fraction that is
  written there; the floating-point values themselves are an arbitrary type \<open>'a\<close>
  (for \<^verbatim>\<open>float\<close> and \<^verbatim>\<open>double\<close> alike: the header does no arithmetic on doubles).
  The only arithmetic the header does on them is the subtraction of \<^verbatim>\<open>glm::vec3\<close>,
  so \<open>'a\<close> is of class \<open>minus\<close> where that is used; no law of arithmetic is assumed.
\<close>

type_synonym literal = rat

section \<open>Data of LibOVR, GLM, SDL and OpenGL used by the header\<close>

text \<open>
  The header includes the declarations of these libraries; only the members that the
  header reads or writes are kept.  A two-element C array is a function of its index.
\<close>

datatype ovrEyeType = ovrEye_Left | ovrEye_Right

fun eye_index :: "ovrEyeType \<Rightarrow> nat" where
  "eye_index ovrEye_Left = 0"
| "eye_index ovrEye_Right = 1"

definition ovrEye_Count :: nat where
  "ovrEye_Count = 2"

datatype ovrHmdType = ovrHmd_None | ovrHmd_DK1 | ovrHmd_DKHD | ovrHmd_CrystalCoveProto
  | ovrHmd_DK2 | ovrHmd_Other

datatype ovrRenderAPIType = ovrRenderAPI_None | ovrRenderAPI_OpenGL

datatype GLenum = GL_ELEMENT_ARRAY_BUFFER | GL_ARRAY_BUFFER | GL_FRAMEBUFFER
  | GL_COLOR_BUFFER_BIT | GL_DEPTH_BUFFER_BIT

datatype framebuffer_status = GL_FRAMEBUFFER_COMPLETE | GL_FRAMEBUFFER_INCOMPLETE

text \<open>A device handle is a pointer; \<open>0\<close> is the null pointer.\<close>

type_synonym ovrHmd = nat

record ovrSizei =
  w :: c_int
  h :: c_int

record ovrVector2i =
  x :: c_int
  y :: c_int

record ovrRecti =
  Pos :: ovrVector2i
  Size :: ovrSizei

datatype 'a vec3 = vec3 'a 'a 'a

datatype 'a ovrVector3f = ovrVector3f 'a 'a 'a

datatype 'a ovrQuatf = ovrQuatf 'a 'a 'a 'a

text \<open>\<^verbatim>\<open>operator[]\<close> of \<^verbatim>\<open>glm::vec3\<close>, for the indices \<open>0\<close>, \<open>1\<close>, \<open>2\<close> the header uses.\<close>

fun vec3_index :: "'a vec3 \<Rightarrow> nat \<Rightarrow> 'a" where
  "vec3_index (vec3 a b c) i = (if i = 0 then a else if i = 1 then b else c)"

text \<open>\<^verbatim>\<open>operator-\<close> of \<^verbatim>\<open>glm::vec3\<close>: component by component.\<close>

fun vec3_minus :: "'a::minus vec3 \<Rightarrow> 'a vec3 \<Rightarrow> 'a vec3" where
  "vec3_minus (vec3 a b c) (vec3 a' b' c') = vec3 (a - a') (b - b') (c - c')"

record 'a ovrFovPort =
  UpTan :: 'a
  DownTan :: 'a
  LeftTan :: 'a
  RightTan :: 'a

record 'a ovrPosef =
  Orientation :: "'a ovrQuatf"
  Position :: "'a ovrVector3f"

record 'a ovrPoseStatef =
  Pose :: "'a ovrPosef"

record 'a ovrSensorState =
  Predicted :: "'a ovrPoseStatef"
  StatusFlags :: c_uint

record 'a ovrFrameTiming =
  ScanoutMidpointSeconds :: 'a

record 'a ovrHmdDesc =
  DefaultEyeFov :: "nat \<Rightarrow> 'a ovrFovPort"
  EyeRenderOrder :: "nat \<Rightarrow> ovrEyeType"

record 'a ovrEyeRenderDesc =
  Fov :: "'a ovrFovPort"
  ViewAdjust :: "'a ovrVector3f"

text \<open>\<^verbatim>\<open>ovrGLTexture\<close>: the members \<^verbatim>\<open>OGL.Header\<close> and \<^verbatim>\<open>OGL.TexId\<close>.\<close>

record ovrTextureHeader =
  API :: ovrRenderAPIType
  TextureSize :: ovrSizei
  RenderViewport :: ovrRecti

record ovrGLTexture =
  Header :: ovrTextureHeader
  TexId :: GLuint

text \<open>\<^verbatim>\<open>ovrGLConfig\<close>: the members \<^verbatim>\<open>OGL.Header\<close> (API, RTSize, Multisample), and
  \<^verbatim>\<open>OGL.Win\<close>, \<^verbatim>\<open>OGL.Disp\<close> of the Linux branch.\<close>

record ovrGLConfig =
  config_API :: ovrRenderAPIType
  Multisample :: bool
  RTSize :: ovrSizei
  Win :: nat
  Disp :: nat

text \<open>
  The matrices handed to the scene are results of LibOVR's and GLM's arithmetic, which
  is not part of the header: a matrix is represented by the expression that computes it.
\<close>

datatype 'a Quatf = Quatf "'a ovrQuatf" | Inverted "'a Quatf"

datatype 'a Matrix4f =
    Translation "'a ovrVector3f"
  | Matrix4f "'a Quatf"
  | Mult "'a Matrix4f" "'a Matrix4f"
  | ovrMatrix4f_Projection "'a ovrFovPort" literal literal bool
  | Transposed "'a Matrix4f"

datatype 'a mat4 = ovr2glmMat "'a Matrix4f"

section \<open>The object\<close>

text \<open>The data members of \<^verbatim>\<open>Oculus<T>\<close>, in the order of their declaration, without
  the underscore that ends their names in the source (Isabelle keeps such names for
  itself).  The reference \<^verbatim>\<open>scene_\<close> is outside: what the scene answers is an input.\<close>

record 'a oculus =
  textureId :: GLuint
  FBOId :: GLuint
  depthBufferId :: GLuint
  hmd :: ovrHmd
  hmdDesc :: "'a ovrHmdDesc"
  eyeRenderDesc :: "nat \<Rightarrow> 'a ovrEyeRenderDesc"
  eyeTexture :: "nat \<Rightarrow> ovrGLTexture"
  eyeFov :: "nat \<Rightarrow> 'a ovrFovPort"
  cfg :: ovrGLConfig
  windowSize :: ovrSizei
  textureSizeLeft :: ovrSizei
  textureSizeRight :: ovrSizei
  textureSize :: ovrSizei
  frameTiming :: "'a ovrFrameTiming"
  sensorState :: "'a ovrSensorState"
  angles :: "'a vec3"
  dAngles :: "'a vec3"
  distortionCaps :: c_int
  usingDebugHmd :: bool
  multisampleEnabled :: bool

text \<open>
  Constants and functions of LibOVR and of \<^verbatim>\<open>Utils.h\<close> that the header uses and whose
  definitions are elsewhere; they are parameters of the model.
\<close>

record 'a library =
  ovrStatus_OrientationTracked :: c_uint
  ovrStatus_PositionTracked :: c_uint
  ovrDistortionCap_Chromatic :: c_int
  ovrDistortionCap_TimeWarp :: c_int
  GetEulerAngles :: "'a ovrQuatf \<Rightarrow> 'a vec3"
  RadToDegree :: "'a \<Rightarrow> 'a"
  isEqual :: "'a \<Rightarrow> 'a \<Rightarrow> bool"

text \<open>
  What the scene, the device runtime, SDL and OpenGL answer while the object is set up.
  A call whose result the header does not use leaves no mark on the object and is not
  recorded here.
\<close>

record 'a platform =
  windowWidth :: c_int
  windowHeight :: c_int
  ovrHmd_Create :: "c_int \<Rightarrow> ovrHmd"
  ovrHmd_CreateDebug :: "ovrHmdType \<Rightarrow> ovrHmd"
  ovrHmd_GetDesc :: "ovrHmd \<Rightarrow> 'a ovrHmdDesc"
  ovrHmd_GetFovTextureSize :: "ovrHmd \<Rightarrow> ovrEyeType \<Rightarrow> 'a ovrFovPort \<Rightarrow> literal \<Rightarrow> ovrSizei"
  glGenFramebuffers :: GLuint
  glGenTextures :: GLuint
  glGenRenderbuffers :: GLuint
  glCheckFramebufferStatus :: framebuffer_status
  SDL_GetWindowWMInfo :: "bool \<times> nat \<times> nat"
  ovrHmd_ConfigureRendering ::
    "ovrHmd \<Rightarrow> ovrGLConfig \<Rightarrow> c_int \<Rightarrow> (nat \<Rightarrow> 'a ovrFovPort) \<Rightarrow> bool \<times> (nat \<Rightarrow> 'a ovrEyeRenderDesc)"

section \<open>Render target sizes\<close>

text \<open>\<^verbatim>\<open>Oculus::computeSizes\<close>.\<close>

definition computeSizes :: "'a platform \<Rightarrow> 'a oculus \<Rightarrow> 'a oculus" where
  "computeSizes p s =
    (let s1 = s\<lparr>windowSize := (windowSize s)\<lparr>w := windowWidth p\<rparr>\<rparr>;
         s2 = s1\<lparr>windowSize := (windowSize s1)\<lparr>h := windowHeight p\<rparr>\<rparr>;
         s3 = s2\<lparr>textureSizeLeft :=
                ovrHmd_GetFovTextureSize p (hmd s2) ovrEye_Left (DefaultEyeFov (hmdDesc s2) 0) 1\<rparr>;
         s4 = s3\<lparr>textureSizeRight :=
                ovrHmd_GetFovTextureSize p (hmd s3) ovrEye_Right (DefaultEyeFov (hmdDesc s3) 1) 1\<rparr>;
         s5 = s4\<lparr>textureSize := (textureSize s4)
                \<lparr>w := w (textureSizeLeft s4) + w (textureSizeRight s4)\<rparr>\<rparr>
     in s5\<lparr>textureSize := (textureSize s5)
                \<lparr>h := (if c_gt (h (textureSizeLeft s5)) (h (textureSizeRight s5))
                       then h (textureSizeLeft s5) else h (textureSizeRight s5))\<rparr>\<rparr>)"

text \<open>\<^verbatim>\<open>Oculus::setEyeTexture\<close>: the right eye's entry is a copy of the left eye's, with
  another x-position.\<close>

definition setEyeTexture :: "'a oculus \<Rightarrow> 'a oculus" where
  "setEyeTexture s =
    (let t0 = eyeTexture s 0;
         hd0 = Header t0;
         hd1 = hd0\<lparr>API := ovrRenderAPI_OpenGL\<rparr>;
         hd2 = hd1\<lparr>TextureSize := (TextureSize hd1)\<lparr>w := w (textureSize s)\<rparr>\<rparr>;
         hd3 = hd2\<lparr>TextureSize := (TextureSize hd2)\<lparr>h := h (textureSize s)\<rparr>\<rparr>;
         vp0 = RenderViewport hd3;
         vp1 = vp0\<lparr>Pos := (Pos vp0)\<lparr>x := 0\<rparr>\<rparr>;
         vp2 = vp1\<lparr>Pos := (Pos vp1)\<lparr>y := 0\<rparr>\<rparr>;
         vp3 = vp2\<lparr>Size := (Size vp2)\<lparr>h := h (textureSize s)\<rparr>\<rparr>;
         vp4 = vp3\<lparr>Size := (Size vp3)\<lparr>w := c_div (w (textureSize s)) 2\<rparr>\<rparr>;
         t1 = t0\<lparr>Header := hd3\<lparr>RenderViewport := vp4\<rparr>, TexId := textureId s\<rparr>;
         s1 = s\<lparr>eyeTexture := (eyeTexture s)(0 := t1)\<rparr>;
         s2 = s1\<lparr>eyeTexture := (eyeTexture s1)(1 := eyeTexture s1 0)\<rparr>;
         t2 = eyeTexture s2 1;
         vp5 = RenderViewport (Header t2);
         t3 = t2\<lparr>Header := (Header t2)
                \<lparr>RenderViewport := vp5\<lparr>Pos := (Pos vp5)\<lparr>x := c_div (w (textureSize s2) + 1) 2\<rparr>\<rparr>\<rparr>\<rparr>
     in s2\<lparr>eyeTexture := (eyeTexture s2)(1 := t3)\<rparr>)"

section \<open>Orientation\<close>

text \<open>
  \<^verbatim>\<open>Oculus::isMoving\<close>: the loop \<^verbatim>\<open>for(int i=0; i < 3; i++)\<close> with its accumulator
  \<^verbatim>\<open>res\<close>, and the negation that is returned.
\<close>

function isMoving_loop :: "'a library \<Rightarrow> 'a oculus \<Rightarrow> nat \<Rightarrow> bool \<Rightarrow> bool" where
  "isMoving_loop lib s i res =
    (if i < 3
     then isMoving_loop lib s (Suc i)
            (res \<and> isEqual lib (vec3_index (angles s) i) (vec3_index (dAngles s) i))
     else res)"
  by pat_completeness auto
termination
  by (relation "measure (\<lambda>(lib, s, i, res). 3 - i)") auto

declare isMoving_loop.simps [simp del]

definition isMoving :: "'a library \<Rightarrow> 'a oculus \<Rightarrow> bool" where
  "isMoving lib s = (let res = isMoving_loop lib s 0 False in \<not> res)"

text \<open>\<^verbatim>\<open>Oculus::setAngles\<close>.\<close>

definition setAngles :: "'a vec3 \<Rightarrow> 'a oculus \<Rightarrow> 'a oculus" where
  "setAngles a s = s\<lparr>angles := a\<rparr>"


section \<open>Calls made during a frame\<close>

text \<open>
  The calls to the C interface of the device runtime, to OpenGL, to \<^verbatim>\<open>Utils\<close>, to the
  scene and to the logger that \<^verbatim>\<open>render\<close> and \<^verbatim>\<open>getInput\<close> make, with their arguments, in
  the order they are made.  The constructors, operators and member functions of LibOVR's
  value classes (\<^verbatim>\<open>OVR_Math.h\<close>) are not calls here: they are the expressions above.
  The call of \<^verbatim>\<open>ovrMatrix4f_Projection\<close> is named \<open>call_ovrMatrix4f_Projection\<close>, since the
  plain name stands for the matrix it returns; likewise \<open>Utils_ovr2glmMat m\<close> is the call
  whose result is \<open>ovr2glmMat m\<close>.
\<close>

datatype 'a log_item = Str string | Val 'a

datatype 'a call =
    glBindBuffer GLenum GLuint
  | glUseProgram GLuint
  | ovrHmd_BeginFrame ovrHmd c_uint
  | glBindFramebuffer GLenum GLuint
  | glClearColor literal literal literal literal
  | glClear "GLenum list"
  | ovrHmd_GetSensorState ovrHmd 'a
  | logger_debug "'a log_item list"
  | ovrHmd_BeginEyeRender ovrHmd ovrEyeType
  | glViewport c_int c_int c_int c_int
  | call_ovrMatrix4f_Projection "'a ovrFovPort" literal literal bool
  | Utils_ovr2glmMat "'a Matrix4f"
  | scene_render "'a mat4" "'a mat4"
  | Utils_GLGetError
  | ovrHmd_EndEyeRender ovrHmd ovrEyeType "'a ovrPosef" ovrGLTexture
  | ovrHmd_EndFrame ovrHmd

text \<open>What the device runtime returns during one frame; the pose of
  \<^verbatim>\<open>ovrHmd_BeginEyeRender\<close> is given for each round of the loop over the eyes.\<close>

record 'a frame =
  ret_BeginFrame :: "'a ovrFrameTiming"
  ret_GetSensorState :: "'a ovrSensorState"
  ret_BeginEyeRender :: "nat \<Rightarrow> 'a ovrPosef"

text \<open>\<^verbatim>\<open>Oculus::getInput\<close>; its argument is what \<^verbatim>\<open>ovrHmd_GetSensorState\<close> returns.\<close>

definition getInput ::
  "'a::minus library \<Rightarrow> 'a ovrSensorState \<Rightarrow> 'a oculus \<Rightarrow> 'a oculus \<times> 'a call list" where
  "getInput lib ret s =
    (let oldAngles = angles s;
         c = ovrHmd_GetSensorState (hmd s) (ScanoutMidpointSeconds (frameTiming s));
         s1 = s\<lparr>sensorState := ret\<rparr>
     in if StatusFlags (sensorState s1)
             AND (ovrStatus_OrientationTracked lib OR ovrStatus_PositionTracked lib) \<noteq> 0
        then
          let pose = Pose (Predicted (sensorState s1));
              quat = Orientation pose;
              s2 = s1\<lparr>angles := GetEulerAngles lib quat\<rparr>;
              s3 = s2\<lparr>dAngles := vec3_minus (angles s2) oldAngles\<rparr>
          in (s3,
              [c,
               logger_debug [Str ''Angles: '',
                 Val (RadToDegree lib (vec3_index (angles s3) 0)), Str '', '',
                 Val (RadToDegree lib (vec3_index (angles s3) 1)), Str '', '',
                 Val (RadToDegree lib (vec3_index (angles s3) 1)), Str '' degrees''],
               logger_debug [Str ''Angles: '',
                 Val (vec3_index (angles s3) 0), Str '', '',
                 Val (vec3_index (angles s3) 1), Str '', '',
                 Val (vec3_index (angles s3) 1), Str '' rad''],
               logger_debug [Str ''DAngles: '',
                 Val (RadToDegree lib (vec3_index (dAngles s3) 0)), Str '', '',
                 Val (RadToDegree lib (vec3_index (dAngles s3) 1)), Str '', '',
                 Val (RadToDegree lib (vec3_index (dAngles s3) 1)), Str '' degrees'']])
        else (s1, [c, logger_debug [Str ''No input data (using debug hmd)'']]))"

section \<open>The frame\<close>

text \<open>The body of the loop over the eyes in \<^verbatim>\<open>Oculus::render\<close>, for one value of
  \<^verbatim>\<open>eyeIndex\<close>.\<close>

definition render_eye :: "'a frame \<Rightarrow> 'a oculus \<Rightarrow> nat \<Rightarrow> 'a call list" where
  "render_eye r s eyeIndex =
    (let eye = EyeRenderOrder (hmdDesc s) eyeIndex;
         eyeRenderPose = ret_BeginEyeRender r eyeIndex;
         vp = RenderViewport (Header (eyeTexture s (eye_index eye)));
         MV = Mult (Translation (ViewAdjust (eyeRenderDesc s (eye_index eye))))
                   (Matrix4f (Inverted (Quatf (Orientation eyeRenderPose))));
         Proj = ovrMatrix4f_Projection (Fov (eyeRenderDesc s (eye_index eye))) (1 / 100) 10000 True;
         glmMV = ovr2glmMat (Transposed MV);
         glmProj = ovr2glmMat (Transposed Proj)
     in [ovrHmd_BeginEyeRender (hmd s) eye,
         glViewport (x (Pos vp)) (y (Pos vp)) (w (Size vp)) (h (Size vp)),
         call_ovrMatrix4f_Projection (Fov (eyeRenderDesc s (eye_index eye))) (1 / 100) 10000 True,
         Utils_ovr2glmMat (Transposed MV),
         Utils_ovr2glmMat (Transposed Proj),
         scene_render glmMV glmProj,
         Utils_GLGetError,
         ovrHmd_EndEyeRender (hmd s) eye eyeRenderPose (eyeTexture s (eye_index eye))])"

function render_loop :: "'a frame \<Rightarrow> 'a oculus \<Rightarrow> nat \<Rightarrow> 'a call list" where
  "render_loop r s eyeIndex =
    (if eyeIndex < ovrEye_Count
     then render_eye r s eyeIndex @ render_loop r s (Suc eyeIndex)
     else [])"
  by pat_completeness auto
termination
  by (relation "measure (\<lambda>(r, s, eyeIndex). ovrEye_Count - eyeIndex)") auto

declare render_loop.simps [simp del]

text \<open>\<^verbatim>\<open>Oculus::render\<close>.\<close>

definition render :: "'a::minus library \<Rightarrow> 'a frame \<Rightarrow> 'a oculus \<Rightarrow> 'a oculus \<times> 'a call list" where
  "render lib r s =
    (let c1 = [glBindBuffer GL_ELEMENT_ARRAY_BUFFER 0, glBindBuffer GL_ARRAY_BUFFER 0, glUseProgram 0];
         s1 = s\<lparr>frameTiming := ret_BeginFrame r\<rparr>;
         c2 = [ovrHmd_BeginFrame (hmd s) 0,
               glBindFramebuffer GL_FRAMEBUFFER (FBOId s1),
               glClearColor 0 0 0 1,
               glClear [GL_COLOR_BUFFER_BIT, GL_DEPTH_BUFFER_BIT]];
         (s2, c3) = getInput lib (ret_GetSensorState r) s1;
         c4 = render_loop r s2 0
     in (s2, c1 @ c2 @ c3 @ c4 @ [ovrHmd_EndFrame (hmd s2)]))"

section \<open>Construction and destruction\<close>

text \<open>
  An \<^verbatim>\<open>assert\<close> that fails ends the program; the constructor returns which one
  (the asserts are compiled in: \<^verbatim>\<open>NDEBUG\<close> is not defined by the header).
\<close>

datatype failure =
    Assert_not_alreadyCreated
  | Assert_hmd
  | Assert_textureSize_w
  | Assert_textureSize_h
  | Assert_FBOId
  | Assert_depthBufferId
  | Assert_framebuffer_complete
  | Assert_infoRes
  | Assert_configurationRes

definition and_then :: "failure + 'b \<Rightarrow> ('b \<Rightarrow> failure + 'c) \<Rightarrow> failure + 'c" where
  "and_then r f = (case r of Inl e \<Rightarrow> Inl e | Inr v \<Rightarrow> f v)"

text \<open>\<^verbatim>\<open>Oculus::initFBO\<close>, \<^verbatim>\<open>initTexture\<close>, \<^verbatim>\<open>initDepthBuffer\<close>, \<^verbatim>\<open>setCfg\<close>.\<close>

definition initFBO :: "'a platform \<Rightarrow> 'a oculus \<Rightarrow> failure + 'a oculus" where
  "initFBO p s =
    (if w (textureSize s) = 0 then Inl Assert_textureSize_w
     else if h (textureSize s) = 0 then Inl Assert_textureSize_h
     else let s1 = s\<lparr>FBOId := glGenFramebuffers p\<rparr>
          in if FBOId s1 = 0 then Inl Assert_FBOId else Inr s1)"

definition initTexture :: "'a platform \<Rightarrow> 'a oculus \<Rightarrow> 'a oculus" where
  "initTexture p s = s\<lparr>textureId := glGenTextures p\<rparr>"

definition initDepthBuffer :: "'a platform \<Rightarrow> 'a oculus \<Rightarrow> failure + 'a oculus" where
  "initDepthBuffer p s =
    (let s1 = s\<lparr>depthBufferId := glGenRenderbuffers p\<rparr>
     in if depthBufferId s1 = 0 then Inl Assert_depthBufferId
        else let check = glCheckFramebufferStatus p
             in if check \<noteq> GL_FRAMEBUFFER_COMPLETE then Inl Assert_framebuffer_complete
                else Inr s1)"

definition setCfg :: "'a platform \<Rightarrow> 'a oculus \<Rightarrow> failure + 'a oculus" where
  "setCfg p s =
    (let s1 = s\<lparr>cfg := (cfg s)\<lparr>config_API := ovrRenderAPI_OpenGL\<rparr>\<rparr>;
         s2 = s1\<lparr>cfg := (cfg s1)\<lparr>Multisample := multisampleEnabled s1\<rparr>\<rparr>;
         s3 = s2\<lparr>cfg := (cfg s2)\<lparr>RTSize := (RTSize (cfg s2))\<lparr>w := w (windowSize s2)\<rparr>\<rparr>\<rparr>;
         s4 = s3\<lparr>cfg := (cfg s3)\<lparr>RTSize := (RTSize (cfg s3))\<lparr>h := h (windowSize s3)\<rparr>\<rparr>\<rparr>;
         (infoRes, window, display) = SDL_GetWindowWMInfo p
     in if \<not> infoRes then Inl Assert_infoRes
        else Inr (s4\<lparr>cfg := (cfg s4)\<lparr>Win := window, Disp := display\<rparr>\<rparr>))"

text \<open>
  The constructor \<^verbatim>\<open>Oculus<T>::Oculus\<close>.  The static member \<^verbatim>\<open>alreadyCreated\<close> is
  declared in the class template and defined by
  \<^verbatim>\<open>template<class T> bool Oculus<T>::alreadyCreated = false;\<close>
  so there is one flag for each template argument \<open>T\<close>: the flags are a function of
  \<open>T\<close>, and the constructor of \<^verbatim>\<open>Oculus<T>\<close> reads and writes the flag of its own \<open>T\<close>.
  \<open>mem\<close> is the storage of the new object, whose members not named in the initialiser
  list start with whatever is there.  \<^verbatim>\<open>ovr_Initialize\<close>, \<^verbatim>\<open>setOpenGLState\<close>,
  \<^verbatim>\<open>ovrHmd_StartSensor\<close> and the logger return nothing the constructor uses.
\<close>

definition Oculus ::
  "'a::{minus,zero} library \<Rightarrow> 'a platform \<Rightarrow> 'T \<Rightarrow> ('T \<Rightarrow> bool) \<Rightarrow> 'a oculus
    \<Rightarrow> failure + ('a oculus \<times> ('T \<Rightarrow> bool))" where
  "Oculus lib p T alreadyCreated mem =
    (let s0 = mem\<lparr>textureId := 0, FBOId := 0, depthBufferId := 0, hmd := 0,
                  windowSize := \<lparr>w = 0, h = 0\<rparr>,
                  textureSizeLeft := \<lparr>w = 0, h = 0\<rparr>,
                  textureSizeRight := \<lparr>w = 0, h = 0\<rparr>,
                  textureSize := \<lparr>w = 0, h = 0\<rparr>,
                  angles := vec3 0 0 0, dAngles := vec3 0 0 0,
                  distortionCaps := 0, usingDebugHmd := False, multisampleEnabled := False\<rparr>
     in if alreadyCreated T then Inl Assert_not_alreadyCreated
        else
          let s1 = s0\<lparr>hmd := ovrHmd_Create p 0\<rparr>
          in and_then
               (if hmd s1 = 0
                then let s1a = s1\<lparr>hmd := ovrHmd_CreateDebug p ovrHmd_DK1\<rparr>;
                         s1b = s1a\<lparr>usingDebugHmd := True\<rparr>
                     in if hmd s1b = 0 then Inl Assert_hmd else Inr s1b
                else Inr s1)
               (\<lambda>s2.
          let s3 = s2\<lparr>hmdDesc := ovrHmd_GetDesc p (hmd s2)\<rparr>;
              s4 = computeSizes p s3;
              s5 = s4\<lparr>distortionCaps :=
                      ovrDistortionCap_Chromatic lib OR ovrDistortionCap_TimeWarp lib\<rparr>;
              s6 = s5\<lparr>eyeFov := (eyeFov s5)(0 := DefaultEyeFov (hmdDesc s5) 0)\<rparr>;
              s7 = s6\<lparr>eyeFov := (eyeFov s6)(1 := DefaultEyeFov (hmdDesc s6) 1)\<rparr>
          in and_then (initFBO p s7) (\<lambda>s8.
             and_then (initDepthBuffer p (initTexture p s8)) (\<lambda>s9.
             and_then (setCfg p (computeSizes p s9)) (\<lambda>s10.
          let s11 = setEyeTexture s10;
              (configurationRes, descs) =
                 ovrHmd_ConfigureRendering p (hmd s11) (cfg s11) (distortionCaps s11) (eyeFov s11);
              s12 = s11\<lparr>eyeRenderDesc := descs\<rparr>
          in if \<not> configurationRes then Inl Assert_configurationRes
             else Inr (s12, alreadyCreated(T := True)))))))"

text \<open>The destructor \<^verbatim>\<open>Oculus<T>::~Oculus\<close>, as far as the flag goes.\<close>

definition Oculus_destructor :: "'T \<Rightarrow> ('T \<Rightarrow> bool) \<Rightarrow> ('T \<Rightarrow> bool)" where
  "Oculus_destructor T alreadyCreated = alreadyCreated(T := False)"

section \<open>The frame as the specification describes it\<close>

text \<open>
  The steps of one frame that the specification names, each with the data it works on,
  and the step that a call of the header stands for.  A step keeps every argument of its
  call.  The calls that stand for no step are the two \<^verbatim>\<open>glBindBuffer\<close> and the
  \<^verbatim>\<open>glUseProgram\<close> before the frame begins, the lines of the logger and the queries of
  the OpenGL error.
\<close>

datatype 'a step =
    BeginFrame ovrHmd c_uint
  | BindTarget GLenum GLuint
  | ClearColour literal literal literal literal
  | ClearTarget "GLenum list"
  | SampleInput ovrHmd 'a
  | BeginEyeRender ovrHmd ovrEyeType
  | SetViewport ovrRecti
  | RuntimeProjection "'a ovrFovPort" literal literal bool
  | ComputeMatrix "'a mat4"
  | SceneRender "'a mat4" "'a mat4"
  | EndEyeRender ovrHmd ovrEyeType "'a ovrPosef" ovrGLTexture
  | EndFrame ovrHmd

fun step_of :: "'a call \<Rightarrow> 'a step option" where
  "step_of (ovrHmd_BeginFrame d i) = Some (BeginFrame d i)"
| "step_of (glBindFramebuffer t f) = Some (BindTarget t f)"
| "step_of (glClearColor r g b a) = Some (ClearColour r g b a)"
| "step_of (glClear m) = Some (ClearTarget m)"
| "step_of (ovrHmd_GetSensorState d t) = Some (SampleInput d t)"
| "step_of (ovrHmd_BeginEyeRender d e) = Some (BeginEyeRender d e)"
| "step_of (glViewport a b c d) = Some (SetViewport \<lparr>Pos = \<lparr>x = a, y = b\<rparr>, Size = \<lparr>w = c, h = d\<rparr>\<rparr>)"
| "step_of (call_ovrMatrix4f_Projection f n l r) = Some (RuntimeProjection f n l r)"
| "step_of (Utils_ovr2glmMat m) = Some (ComputeMatrix (ovr2glmMat m))"
| "step_of (scene_render mv proj) = Some (SceneRender mv proj)"
| "step_of (ovrHmd_EndEyeRender d e q t) = Some (EndEyeRender d e q t)"
| "step_of (ovrHmd_EndFrame d) = Some (EndFrame d)"
| "step_of (glBindBuffer t b) = None"
| "step_of (glUseProgram g) = None"
| "step_of (logger_debug m) = None"
| "step_of Utils_GLGetError = None"

text \<open>
  Step 4c of the specification: the view matrix is the translation by the eye's stereo
  offset times the inverse of the orientation of the eye pose; the projection matrix is
  the runtime's projection for the eye's field of view with the near plane 0.01 and the
  far plane 10000, right-handed; both are transposed for the scene.
\<close>

definition spec_view_matrix :: "'a ovrEyeRenderDesc \<Rightarrow> 'a ovrPosef \<Rightarrow> 'a mat4" where
  "spec_view_matrix desc pose =
     ovr2glmMat (Transposed
       (Mult (Translation (ViewAdjust desc)) (Matrix4f (Inverted (Quatf (Orientation pose))))))"

definition spec_projection_matrix :: "'a ovrEyeRenderDesc \<Rightarrow> 'a mat4" where
  "spec_projection_matrix desc =
     ovr2glmMat (Transposed (ovrMatrix4f_Projection (Fov desc) (1 / 100) 10000 True))"

text \<open>
  The pass for one eye, steps 4a to 4e: the pose of the eye is obtained, the viewport
  is set to the eye's viewport in the combined texture, the two matrices are computed,
  the scene renders with them, and the eye's texture and pose are submitted.
\<close>

definition spec_eye_pass :: "'a oculus \<Rightarrow> ovrEyeType \<Rightarrow> 'a ovrPosef \<Rightarrow> 'a step list" where
  "spec_eye_pass s e pose =
     (let desc = eyeRenderDesc s (eye_index e);
          texture = eyeTexture s (eye_index e);
          view = spec_view_matrix desc pose;
          projection = spec_projection_matrix desc
      in [BeginEyeRender (hmd s) e]
       @ [SetViewport (RenderViewport (Header texture))]
       @ [RuntimeProjection (Fov desc) (1 / 100) 10000 True,
          ComputeMatrix view, ComputeMatrix projection]
       @ [SceneRender view projection]
       @ [EndEyeRender (hmd s) e pose texture])"

text \<open>
  The frame, steps 1 to 5: the frame begins; the target's framebuffer is bound and
  cleared to opaque black in colour and depth; the orientation is sampled at the
  midpoint that the new frame timing predicts; the eyes are passed in the order the
  runtime declares, each with the pose the runtime returns for it; the frame ends.
\<close>

definition spec_frame_steps :: "'a frame \<Rightarrow> 'a oculus \<Rightarrow> 'a step list" where
  "spec_frame_steps r s =
     [BeginFrame (hmd s) 0]
     @ [BindTarget GL_FRAMEBUFFER (FBOId s), ClearColour 0 0 0 1,
        ClearTarget [GL_COLOR_BUFFER_BIT, GL_DEPTH_BUFFER_BIT]]
     @ [SampleInput (hmd s) (ScanoutMidpointSeconds (ret_BeginFrame r))]
     @ concat (map (\<lambda>i. spec_eye_pass s (EyeRenderOrder (hmdDesc s) i) (ret_BeginEyeRender r i))
                   [0..<ovrEye_Count])
     @ [EndFrame (hmd s)]"

section \<open>Sample inputs\<close>

text \<open>
  Concrete values at which the statements below are evaluated.  The functions of
  \<open>sample_library\<close> are stand-ins: its \<open>GetEulerAngles\<close> returns the first three
  components of the quaternion.  \<open>sample_platform device debug\<close> answers \<open>device\<close> to
  \<^verbatim>\<open>ovrHmd_Create\<close> and \<open>debug\<close> to \<^verbatim>\<open>ovrHmd_CreateDebug\<close>.  \<open>sample_scene\<close> names two
  scene classes a program may pass as the template argument.
\<close>

definition sample_fov :: "rat ovrFovPort" where
  "sample_fov = \<lparr>UpTan = 1, DownTan = 1, LeftTan = 1, RightTan = 1\<rparr>"

definition sample_hmdDesc :: "rat ovrHmdDesc" where
  "sample_hmdDesc = \<lparr>DefaultEyeFov = (\<lambda>i. sample_fov),
     EyeRenderOrder = (\<lambda>i. if i = 0 then ovrEye_Right else ovrEye_Left)\<rparr>"

definition sample_library :: "rat library" where
  "sample_library = \<lparr>ovrStatus_OrientationTracked = 1, ovrStatus_PositionTracked = 2,
     ovrDistortionCap_Chromatic = 1, ovrDistortionCap_TimeWarp = 2,
     GetEulerAngles = (\<lambda>q. case q of ovrQuatf a b c d \<Rightarrow> vec3 a b c),
     RadToDegree = (\<lambda>r. r * 180 / 3),
     isEqual = (\<lambda>a b. a = b)\<rparr>"

definition sample_texture :: ovrGLTexture where
  "sample_texture = \<lparr>Header = \<lparr>API = ovrRenderAPI_None, TextureSize = \<lparr>w = 0, h = 0\<rparr>,
      RenderViewport = \<lparr>Pos = \<lparr>x = 0, y = 0\<rparr>, Size = \<lparr>w = 0, h = 0\<rparr>\<rparr>\<rparr>, TexId = 0\<rparr>"

definition sample_pose :: "rat ovrPosef" where
  "sample_pose = \<lparr>Orientation = ovrQuatf (15 / 100) (18 / 100) (3 / 10) 1,
     Position = ovrVector3f 0 0 0\<rparr>"

definition sample_oculus :: "rat oculus" where
  "sample_oculus = \<lparr>textureId = 1, FBOId = 1, depthBufferId = 1, hmd = 1,
     hmdDesc = sample_hmdDesc,
     eyeRenderDesc = (\<lambda>i. \<lparr>Fov = sample_fov, ViewAdjust = ovrVector3f 0 0 0\<rparr>),
     eyeTexture = (\<lambda>i. sample_texture),
     eyeFov = (\<lambda>i. sample_fov),
     cfg = \<lparr>config_API = ovrRenderAPI_None, Multisample = False,
             RTSize = \<lparr>w = 0, h = 0\<rparr>, Win = 0, Disp = 0\<rparr>,
     windowSize = \<lparr>w = 1280, h = 800\<rparr>,
     textureSizeLeft = \<lparr>w = 640, h = 800\<rparr>,
     textureSizeRight = \<lparr>w = 641, h = 800\<rparr>,
     textureSize = \<lparr>w = 1281, h = 800\<rparr>,
     frameTiming = \<lparr>ScanoutMidpointSeconds = 0\<rparr>,
     sensorState = \<lparr>Predicted = \<lparr>Pose = sample_pose\<rparr>, StatusFlags = 0\<rparr>,
     angles = vec3 (1 / 10) (2 / 10) (3 / 10),
     dAngles = vec3 0 0 0,
     distortionCaps = 0, usingDebugHmd = False, multisampleEnabled = False\<rparr>"

definition sample_platform :: "ovrHmd \<Rightarrow> ovrHmd \<Rightarrow> rat platform" where
  "sample_platform device debug = \<lparr>windowWidth = 1280, windowHeight = 800,
     ovrHmd_Create = (\<lambda>i. device),
     ovrHmd_CreateDebug = (\<lambda>t. debug),
     ovrHmd_GetDesc = (\<lambda>d. sample_hmdDesc),
     ovrHmd_GetFovTextureSize = (\<lambda>d e f l. \<lparr>w = 640, h = 800\<rparr>),
     glGenFramebuffers = 1, glGenTextures = 1, glGenRenderbuffers = 1,
     glCheckFramebufferStatus = GL_FRAMEBUFFER_COMPLETE,
     SDL_GetWindowWMInfo = (True, 1, 1),
     ovrHmd_ConfigureRendering =
       (\<lambda>d c caps fov. (True, \<lambda>i. \<lparr>Fov = fov i, ViewAdjust = ovrVector3f 0 0 0\<rparr>))\<rparr>"

datatype sample_scene = SceneA | SceneB

definition sample_sizes :: "ovrSizei \<Rightarrow> ovrSizei \<Rightarrow> rat platform" where
  "sample_sizes L R =
     (sample_platform 1 0)\<lparr>ovrHmd_GetFovTextureSize :=
        (\<lambda>d e f l. if l = 1 then (case e of ovrEye_Left \<Rightarrow> L | ovrEye_Right \<Rightarrow> R)
                   else \<lparr>w = 0, h = 0\<rparr>)\<rparr>"

definition sample_sensor :: "c_uint \<Rightarrow> rat ovrQuatf \<Rightarrow> rat ovrSensorState" where
  "sample_sensor flags q =
     \<lparr>Predicted = \<lparr>Pose = \<lparr>Orientation = q, Position = ovrVector3f 0 0 0\<rparr>\<rparr>, StatusFlags = flags\<rparr>"

section \<open>Integer arithmetic of the sizes\<close>

lemma sint_c_div_2:
  assumes "0 \<le> sint a"
  shows "sint (c_div a 2) = sint a div 2"
proof -
  have b: "sint a < 2 ^ 31" using sint_lt [of a] by simp
  have "sint a sdiv 2 = sint a div 2"
    using assms by (simp add: signed_divide_int_def sgn_if)
  moreover have "sint (word_of_int (sint a div 2) :: 32 word) = sint a div 2"
  proof -
    have "- (2 ^ 31) \<le> sint a div 2" "sint a div 2 < 2 ^ 31" using assms b by auto
    then show ?thesis by (simp add: sint_sbintrunc' signed_take_bit_int_eq_self)
  qed
  ultimately show ?thesis by (simp add: c_div_def)
qed

lemma sint_succ:
  assumes "sint (a :: 32 word) < 2 ^ 31 - 1"
  shows "sint (a + 1) = sint a + 1"
proof -
  have "- (2 ^ 31) \<le> sint a" using sint_ge [of a] by simp
  then show ?thesis using assms
    by (simp add: sint_word_ariths signed_take_bit_int_eq_self)
qed

lemma sint_add_in_range:
  assumes "- (2 ^ 31) \<le> sint (a :: 32 word) + sint b" "sint a + sint b < 2 ^ 31"
  shows "sint (a + b) = sint a + sint b"
  using assms by (simp add: sint_word_ariths signed_take_bit_int_eq_self)

section \<open>Render target: combined size and viewports\<close>

lemma computeSizes_fields:
  "textureSizeLeft (computeSizes p s) = ovrHmd_GetFovTextureSize p (hmd s) ovrEye_Left (DefaultEyeFov (hmdDesc s) 0) 1"
  "textureSizeRight (computeSizes p s) = ovrHmd_GetFovTextureSize p (hmd s) ovrEye_Right (DefaultEyeFov (hmdDesc s) 1) 1"
  "w (textureSize (computeSizes p s)) = w (textureSizeLeft (computeSizes p s)) + w (textureSizeRight (computeSizes p s))"
  "h (textureSize (computeSizes p s)) = (if c_gt (h (textureSizeLeft (computeSizes p s))) (h (textureSizeRight (computeSizes p s))) then h (textureSizeLeft (computeSizes p s)) else h (textureSizeRight (computeSizes p s)))"
  by (simp_all add: computeSizes_def Let_def)

lemma setEyeTexture_left:
  "RenderViewport (Header (eyeTexture (setEyeTexture s) 0)) =
     \<lparr>Pos = \<lparr>x = 0, y = 0\<rparr>, Size = \<lparr>w = c_div (w (textureSize s)) 2, h = h (textureSize s)\<rparr>\<rparr>"
  by (simp add: setEyeTexture_def Let_def)

lemma setEyeTexture_right:
  "RenderViewport (Header (eyeTexture (setEyeTexture s) 1)) =
     \<lparr>Pos = \<lparr>x = c_div (w (textureSize s) + 1) 2, y = 0\<rparr>, Size = \<lparr>w = c_div (w (textureSize s)) 2, h = h (textureSize s)\<rparr>\<rparr>"
  by (simp add: setEyeTexture_def Let_def)

text \<open>
  Claim C3.  \<^verbatim>\<open>computeSizes\<close> asks the device for the recommended texture size of the left
  eye and of the right eye, each with its own default field of view and at pixel density
  1.0, and sets the combined size to the sum of the two widths and the larger of the
  two heights.  The sum is the \<^verbatim>\<open>int\<close> sum; it is the integer sum whenever that fits
  an \<^verbatim>\<open>int\<close>.
\<close>

theorem computeSizes_combined:
  "let L = ovrHmd_GetFovTextureSize p (hmd s) ovrEye_Left (DefaultEyeFov (hmdDesc s) 0) 1;
       R = ovrHmd_GetFovTextureSize p (hmd s) ovrEye_Right (DefaultEyeFov (hmdDesc s) 1) 1;
       T = textureSize (computeSizes p s)
   in w T = w L + w R
    \<and> sint (h T) = max (sint (h L)) (sint (h R))
    \<and> (- (2 ^ 31) \<le> sint (w L) + sint (w R) \<and> sint (w L) + sint (w R) < 2 ^ 31
         \<longrightarrow> sint (w T) = sint (w L) + sint (w R))"
  unfolding Let_def
  by (simp add: computeSizes_fields c_gt_def sint_add_in_range max_def)

text \<open>
  Claim C3, at the device sizes 640 x 800 and 641 x 801: the combined size is 1281 x 801.
\<close>

theorem computeSizes_combined_witness:
  "textureSize (computeSizes (sample_sizes \<lparr>w = 640, h = 800\<rparr> \<lparr>w = 641, h = 801\<rparr>) sample_oculus)
     = \<lparr>w = 1281, h = 801\<rparr>
   \<and> sint (w (textureSize (computeSizes (sample_sizes \<lparr>w = 640, h = 800\<rparr> \<lparr>w = 641, h = 801\<rparr>) sample_oculus))) = 640 + 641"
  using computeSizes_combined [of "sample_sizes \<lparr>w = 640, h = 800\<rparr> \<lparr>w = 641, h = 801\<rparr>" sample_oculus]
  by (simp add: computeSizes_def Let_def sample_sizes_def sample_platform_def sample_oculus_def c_gt_def)

text \<open>
  Claim C1, as the code has it.  For a combined width \<open>W\<close> with \<open>0 \<le> W < 2^31 - 1\<close> the
  left viewport is \<open>{0, 0, W div 2, H}\<close> and the right viewport is
  \<open>{(W + 1) div 2, 0, W - (W + 1) div 2, H}\<close>; the viewports do not overlap and the right
  one ends at \<open>W\<close>.  Both have the width \<open>W div 2\<close>: the widths add up to \<open>W\<close> when \<open>W\<close> is
  even and to \<open>W - 1\<close> when \<open>W\<close> is odd, where the column \<open>W div 2\<close> belongs to neither.
\<close>

theorem setEyeTexture_viewports:
  assumes "0 \<le> sint (w (textureSize s))" and "sint (w (textureSize s)) < 2 ^ 31 - 1"
  shows "let W = sint (w (textureSize s));
             L = RenderViewport (Header (eyeTexture (setEyeTexture s) 0));
             R = RenderViewport (Header (eyeTexture (setEyeTexture s) 1))
         in x (Pos L) = 0 \<and> y (Pos L) = 0 \<and> sint (w (Size L)) = W div 2 \<and> h (Size L) = h (textureSize s)
          \<and> sint (x (Pos R)) = (W + 1) div 2 \<and> y (Pos R) = 0
          \<and> sint (w (Size R)) = W - (W + 1) div 2 \<and> h (Size R) = h (textureSize s)
          \<and> sint (x (Pos L)) + sint (w (Size L)) \<le> sint (x (Pos R))
          \<and> sint (x (Pos R)) + sint (w (Size R)) = W
          \<and> sint (w (Size L)) + sint (w (Size R)) = W - W mod 2"
proof -
  have a: "sint (c_div (w (textureSize s)) 2) = sint (w (textureSize s)) div 2"
    using assms(1) by (rule sint_c_div_2)
  have b: "sint (w (textureSize s) + 1) = sint (w (textureSize s)) + 1"
    using assms(2) by (rule sint_succ)
  have c: "sint (c_div (w (textureSize s) + 1) 2) = (sint (w (textureSize s)) + 1) div 2"
    using sint_c_div_2 [of "w (textureSize s) + 1"] assms(1) b by simp
  show ?thesis
    unfolding Let_def setEyeTexture_left setEyeTexture_right using a c
    by simp presburger
qed

text \<open>
  Claim C1 as stated fails at the combined size 1281 x 800: the widths of the two
  viewports do not add up to the combined width.
\<close>

theorem setEyeTexture_widths_counterexample:
  "w (textureSize sample_oculus) = 1281 \<and>
   w (Size (RenderViewport (Header (eyeTexture (setEyeTexture sample_oculus) 0))))
   + w (Size (RenderViewport (Header (eyeTexture (setEyeTexture sample_oculus) 1))))
   \<noteq> w (textureSize sample_oculus)"
  unfolding setEyeTexture_left setEyeTexture_right
  by (simp add: sample_oculus_def c_div_def)

text \<open>
  Claim C1 as the code has it, at the combined size 1281 x 800: the viewports are
  \<open>{0, 0, 640, 800}\<close> and \<open>{641, 0, 640, 800}\<close>.
\<close>

theorem setEyeTexture_viewports_witness:
  "let L = RenderViewport (Header (eyeTexture (setEyeTexture sample_oculus) 0));
       R = RenderViewport (Header (eyeTexture (setEyeTexture sample_oculus) 1))
   in L = \<lparr>Pos = \<lparr>x = 0, y = 0\<rparr>, Size = \<lparr>w = 640, h = 800\<rparr>\<rparr>
    \<and> R = \<lparr>Pos = \<lparr>x = 641, y = 0\<rparr>, Size = \<lparr>w = 640, h = 800\<rparr>\<rparr>
    \<and> sint (x (Pos L)) + sint (w (Size L)) \<le> sint (x (Pos R))
    \<and> sint (w (Size L)) + sint (w (Size R)) = 1281 - 1"
proof -
  have a: "0 \<le> sint (w (textureSize sample_oculus))"
    by (simp add: sample_oculus_def)
  have b: "sint (w (textureSize sample_oculus)) < 2 ^ 31 - 1"
    by (simp add: sample_oculus_def)
  show ?thesis
    using setEyeTexture_viewports [OF a b] unfolding Let_def setEyeTexture_left setEyeTexture_right
    by (simp add: sample_oculus_def c_div_def)
qed

section \<open>Orientation: \<^verbatim>\<open>isMoving\<close> and \<^verbatim>\<open>setAngles\<close>\<close>

lemma isMoving_loop_False: "isMoving_loop lib s i False = False"
  by (induction lib s i False rule: isMoving_loop.induct) (simp add: isMoving_loop.simps)

text \<open>
  Claim C9.  Whatever the angles, the delta angles and the equality test are, the
  accumulator that starts at \<open>False\<close> is \<open>False\<close> after the loop, and \<^verbatim>\<open>isMoving\<close>, which
  returns its negation, returns \<open>True\<close>.
\<close>

theorem isMoving_always_true:
  "isMoving_loop lib s 0 False = False \<and> isMoving lib s = True"
  by (simp add: isMoving_def isMoving_loop_False)

text \<open>
  Claim C2, at an object whose angles and delta angles are zero on every axis, the values
  the constructor gives them, with exact equality as the test of \<^verbatim>\<open>Utils::isEqual\<close>.  The
  three axes are equal, so by its documentation (\<^verbatim>\<open>true if the Oculus Rift if moving, else
  false\<close>) \<^verbatim>\<open>isMoving\<close> is to return false, as the claim says; the code returns true.
\<close>

theorem isMoving_equal_axes_returns_true:
  "angles (setAngles (vec3 0 0 0) sample_oculus) = vec3 0 0 0
   \<and> dAngles (setAngles (vec3 0 0 0) sample_oculus) = vec3 0 0 0
   \<and> isEqual sample_library (vec3_index (angles (setAngles (vec3 0 0 0) sample_oculus)) 0)
        (vec3_index (dAngles (setAngles (vec3 0 0 0) sample_oculus)) 0)
   \<and> isEqual sample_library (vec3_index (angles (setAngles (vec3 0 0 0) sample_oculus)) 1)
        (vec3_index (dAngles (setAngles (vec3 0 0 0) sample_oculus)) 1)
   \<and> isEqual sample_library (vec3_index (angles (setAngles (vec3 0 0 0) sample_oculus)) 2)
        (vec3_index (dAngles (setAngles (vec3 0 0 0) sample_oculus)) 2)
   \<and> isMoving sample_library (setAngles (vec3 0 0 0) sample_oculus) = True"
  by (simp add: isMoving_def isMoving_loop_False setAngles_def sample_oculus_def
      sample_library_def)

text \<open>
  Claim C10.  \<^verbatim>\<open>setAngles\<close> stores its argument in the current angles; the delta angles
  keep their value, and so does every other member: putting the old angles back gives
  the object as it was.  So the delta angles are the new angles minus some previous
  angles only if they already were the argument minus those angles.
\<close>

theorem setAngles_frame:
  "angles (setAngles a s) = a
   \<and> dAngles (setAngles a s) = dAngles s
   \<and> (setAngles a s)\<lparr>angles := angles s\<rparr> = s
   \<and> (dAngles (setAngles a s) = vec3_minus (angles (setAngles a s)) previous)
       = (dAngles s = vec3_minus a previous)"
  by (simp add: setAngles_def)

section \<open>Orientation: \<^verbatim>\<open>getInput\<close>\<close>

lemma status_test:
  "((f :: 32 word) AND (a OR b) \<noteq> 0) = (f AND a \<noteq> 0 \<or> f AND b \<noteq> 0)"
  by (simp add: bit.conj_disj_distrib or_eq_0_iff)

lemma vec3_minus_index:
  "i < 3 \<Longrightarrow> vec3_index (vec3_minus u v) i = vec3_index u i - vec3_index v i"
  by (cases u; cases v) auto

lemma getInput_tracked_state:
  assumes "StatusFlags ret AND ovrStatus_OrientationTracked lib \<noteq> 0
           \<or> StatusFlags ret AND ovrStatus_PositionTracked lib \<noteq> 0"
  shows "fst (getInput lib ret s) =
           s\<lparr>sensorState := ret, angles := GetEulerAngles lib (Orientation (Pose (Predicted ret))),
              dAngles := vec3_minus (GetEulerAngles lib (Orientation (Pose (Predicted ret)))) (angles s)\<rparr>"
  using assms by (simp add: getInput_def Let_def status_test)

lemma getInput_untracked_state:
  assumes "StatusFlags ret AND ovrStatus_OrientationTracked lib = 0"
      and "StatusFlags ret AND ovrStatus_PositionTracked lib = 0"
  shows "getInput lib ret s =
           (s\<lparr>sensorState := ret\<rparr>,
            [ovrHmd_GetSensorState (hmd s) (ScanoutMidpointSeconds (frameTiming s)),
             logger_debug [Str ''No input data (using debug hmd)'']])"
  using assms by (simp add: getInput_def Let_def status_test)

text \<open>
  Claim C4.  When the status flags have the orientation-tracked or the position-tracked
  bit, \<^verbatim>\<open>getInput\<close> sets the delta angles to the current angles minus the angles held
  before the call, component by component, and holds the current angles afterwards: the
  delta of the next tracked sample is taken from them.
\<close>

theorem getInput_tracked_delta:
  assumes "StatusFlags ret AND ovrStatus_OrientationTracked lib \<noteq> 0
           \<or> StatusFlags ret AND ovrStatus_PositionTracked lib \<noteq> 0"
  shows "let current = GetEulerAngles lib (Orientation (Pose (Predicted ret)));
             previous = angles s;
             s' = fst (getInput lib ret s)
         in (\<forall>i<3. vec3_index (dAngles s') i = vec3_index current i - vec3_index previous i)
          \<and> dAngles s' = vec3_minus current previous
          \<and> angles s' = current
          \<and> (\<forall>ret'. StatusFlags ret' AND ovrStatus_OrientationTracked lib \<noteq> 0
                \<or> StatusFlags ret' AND ovrStatus_PositionTracked lib \<noteq> 0
              \<longrightarrow> dAngles (fst (getInput lib ret' s'))
                  = vec3_minus (GetEulerAngles lib (Orientation (Pose (Predicted ret')))) current)"
  unfolding Let_def
  by (simp add: getInput_tracked_state [OF assms] getInput_tracked_state vec3_minus_index)

text \<open>
  Claim C4, at the previous angles (0.1, 0.2, 0.3) and the current angles
  (0.15, 0.18, 0.3), as fractions: the delta is (0.05, -0.02, 0); a second sample
  (0.2, 0.18, 0.3) gives the delta (0.05, 0, 0).
\<close>

theorem getInput_tracked_delta_witness:
  "angles sample_oculus = vec3 (1 / 10) (2 / 10) (3 / 10)
   \<and> GetEulerAngles sample_library (ovrQuatf (15 / 100) (18 / 100) (3 / 10) 1)
       = vec3 (15 / 100) (18 / 100) (3 / 10)
   \<and> dAngles (fst (getInput sample_library
                 (sample_sensor 1 (ovrQuatf (15 / 100) (18 / 100) (3 / 10) 1)) sample_oculus))
       = vec3 (5 / 100) (- 2 / 100) 0
   \<and> angles (fst (getInput sample_library
                 (sample_sensor 1 (ovrQuatf (15 / 100) (18 / 100) (3 / 10) 1)) sample_oculus))
       = vec3 (15 / 100) (18 / 100) (3 / 10)
   \<and> dAngles (fst (getInput sample_library (sample_sensor 2 (ovrQuatf (2 / 10) (18 / 100) (3 / 10) 1))
        (fst (getInput sample_library
                 (sample_sensor 1 (ovrQuatf (15 / 100) (18 / 100) (3 / 10) 1)) sample_oculus))))
       = vec3 (5 / 100) 0 0"
proof -
  let ?r1 = "sample_sensor 1 (ovrQuatf (15 / 100) (18 / 100) (3 / 10) 1)"
  let ?r2 = "sample_sensor 2 (ovrQuatf (2 / 10) (18 / 100) (3 / 10) 1)"
  have a: "StatusFlags ?r1 AND ovrStatus_OrientationTracked sample_library \<noteq> 0
         \<or> StatusFlags ?r1 AND ovrStatus_PositionTracked sample_library \<noteq> 0"
    by (simp add: sample_sensor_def sample_library_def)
  have b: "StatusFlags ?r2 AND ovrStatus_OrientationTracked sample_library \<noteq> 0
         \<or> StatusFlags ?r2 AND ovrStatus_PositionTracked sample_library \<noteq> 0"
    by (simp add: sample_sensor_def sample_library_def)
  have c: "angles sample_oculus = vec3 (1 / 10) (2 / 10) (3 / 10)"
    by (simp add: sample_oculus_def)
  have e: "GetEulerAngles sample_library (ovrQuatf k l m n) = vec3 k l m" for k l m n
    by (simp add: sample_library_def)
  have d: "Orientation (Pose (Predicted (sample_sensor f q))) = q" for f q
    by (simp add: sample_sensor_def)
  note main = getInput_tracked_delta [OF a, of sample_oculus, unfolded Let_def d e c]
  from main have 1: "dAngles (fst (getInput sample_library ?r1 sample_oculus))
      = vec3_minus (vec3 (15 / 100) (18 / 100) (3 / 10)) (vec3 (1 / 10) (2 / 10) (3 / 10))"
    by (rule conjunct2 [THEN conjunct1])
  from main have 2: "angles (fst (getInput sample_library ?r1 sample_oculus))
      = vec3 (15 / 100) (18 / 100) (3 / 10)"
    by (rule conjunct2 [THEN conjunct2, THEN conjunct1])
  from main have "\<forall>ret'. StatusFlags ret' AND ovrStatus_OrientationTracked sample_library \<noteq> 0
                \<or> StatusFlags ret' AND ovrStatus_PositionTracked sample_library \<noteq> 0
              \<longrightarrow> dAngles (fst (getInput sample_library ret' (fst (getInput sample_library ?r1 sample_oculus))))
                  = vec3_minus (GetEulerAngles sample_library (Orientation (Pose (Predicted ret'))))
                      (vec3 (15 / 100) (18 / 100) (3 / 10))"
    by (rule conjunct2 [THEN conjunct2, THEN conjunct2])
  with b have 3: "dAngles (fst (getInput sample_library ?r2 (fst (getInput sample_library ?r1 sample_oculus))))
                  = vec3_minus (GetEulerAngles sample_library (Orientation (Pose (Predicted ?r2))))
                      (vec3 (15 / 100) (18 / 100) (3 / 10))"
    by blast
  show ?thesis
    unfolding 1 2 3 c d e by simp
qed

text \<open>
  Claim C7.  When the status flags have neither the orientation-tracked nor the
  position-tracked bit, \<^verbatim>\<open>getInput\<close> leaves the current angles and the delta angles as
  they were (only the stored sensor state changes), logs one line and returns.
\<close>

theorem getInput_untracked_stale:
  assumes "StatusFlags ret AND ovrStatus_OrientationTracked lib = 0"
      and "StatusFlags ret AND ovrStatus_PositionTracked lib = 0"
  shows "angles (fst (getInput lib ret s)) = angles s
       \<and> dAngles (fst (getInput lib ret s)) = dAngles s
       \<and> fst (getInput lib ret s) = s\<lparr>sensorState := ret\<rparr>
       \<and> snd (getInput lib ret s) =
            [ovrHmd_GetSensorState (hmd s) (ScanoutMidpointSeconds (frameTiming s)),
             logger_debug [Str ''No input data (using debug hmd)'']]"
  by (simp add: getInput_untracked_state [OF assms])

text \<open>
  Claim C7, at status flags that only say the device is connected.
\<close>

theorem getInput_untracked_stale_witness:
  "angles (fst (getInput sample_library (sample_sensor 128 (ovrQuatf (15 / 100) (18 / 100) (3 / 10) 1)) sample_oculus))
     = vec3 (1 / 10) (2 / 10) (3 / 10)
   \<and> dAngles (fst (getInput sample_library (sample_sensor 128 (ovrQuatf (15 / 100) (18 / 100) (3 / 10) 1)) sample_oculus))
     = vec3 0 0 0
   \<and> snd (getInput sample_library (sample_sensor 128 (ovrQuatf (15 / 100) (18 / 100) (3 / 10) 1)) sample_oculus)
     = [ovrHmd_GetSensorState 1 0, logger_debug [Str ''No input data (using debug hmd)'']]"
proof -
  have a: "StatusFlags (sample_sensor 128 (ovrQuatf (15 / 100) (18 / 100) (3 / 10) 1))
             AND ovrStatus_OrientationTracked sample_library = 0"
    by (simp add: sample_sensor_def sample_library_def)
  have b: "StatusFlags (sample_sensor 128 (ovrQuatf (15 / 100) (18 / 100) (3 / 10) 1))
             AND ovrStatus_PositionTracked sample_library = 0"
    by (simp add: sample_sensor_def sample_library_def)
  from getInput_untracked_stale [OF a b, of sample_oculus] show ?thesis
    by (simp add: sample_oculus_def)
qed

section \<open>The frame: order of the calls\<close>

lemma render_loop_0: "render_loop r s 0 = render_eye r s 0 @ render_eye r s 1"
  by (simp add: render_loop.simps [of r s 0] render_loop.simps [of r s "Suc 0"]
      render_loop.simps [of r s "Suc (Suc 0)"] ovrEye_Count_def)

lemma getInput_keeps:
  "hmd (fst (getInput lib ret s)) = hmd s"
  "hmdDesc (fst (getInput lib ret s)) = hmdDesc s"
  "usingDebugHmd (fst (getInput lib ret s)) = usingDebugHmd s"
  "frameTiming (fst (getInput lib ret s)) = frameTiming s"
  "eyeTexture (fst (getInput lib ret s)) = eyeTexture s"
  "eyeRenderDesc (fst (getInput lib ret s)) = eyeRenderDesc s"
  "FBOId (fst (getInput lib ret s)) = FBOId s"
  by (simp_all add: getInput_def Let_def)

lemma getInput_steps:
  "List.map_filter step_of (snd (getInput lib ret s))
     = [SampleInput (hmd s) (ScanoutMidpointSeconds (frameTiming s))]"
  by (simp add: getInput_def Let_def List.map_filter_simps)

lemma render_eye_steps:
  "List.map_filter step_of (render_eye r s i)
     = spec_eye_pass s (EyeRenderOrder (hmdDesc s) i) (ret_BeginEyeRender r i)"
  by (simp add: render_eye_def spec_eye_pass_def spec_view_matrix_def spec_projection_matrix_def
      Let_def List.map_filter_simps)

lemma spec_eye_pass_getInput:
  "spec_eye_pass (fst (getInput lib ret s)) e pose = spec_eye_pass s e pose"
  by (simp add: spec_eye_pass_def getInput_keeps)

lemma map_filter_append: "List.map_filter f (xs @ ys) = List.map_filter f xs @ List.map_filter f ys"
  by (simp add: List.map_filter_def)

lemma render_calls:
  "snd (render lib r s) =
     [glBindBuffer GL_ELEMENT_ARRAY_BUFFER 0, glBindBuffer GL_ARRAY_BUFFER 0, glUseProgram 0,
      ovrHmd_BeginFrame (hmd s) 0, glBindFramebuffer GL_FRAMEBUFFER (FBOId s),
      glClearColor 0 0 0 1, glClear [GL_COLOR_BUFFER_BIT, GL_DEPTH_BUFFER_BIT]]
     @ snd (getInput lib (ret_GetSensorState r) (s\<lparr>frameTiming := ret_BeginFrame r\<rparr>))
     @ render_eye r (fst (getInput lib (ret_GetSensorState r) (s\<lparr>frameTiming := ret_BeginFrame r\<rparr>))) 0
     @ render_eye r (fst (getInput lib (ret_GetSensorState r) (s\<lparr>frameTiming := ret_BeginFrame r\<rparr>))) 1
     @ [ovrHmd_EndFrame (hmd s)]"
  by (simp add: render_def Let_def split_beta render_loop_0 getInput_keeps)

lemma render_state:
  "fst (render lib r s) = fst (getInput lib (ret_GetSensorState r) (s\<lparr>frameTiming := ret_BeginFrame r\<rparr>))"
  by (simp add: render_def Let_def split_beta)

lemma upt2: "[0..<ovrEye_Count] = [0, 1]"
  by (simp add: ovrEye_Count_def upt_rec)

text \<open>No two calls stand for the same step: a step determines its call, arguments
  included.\<close>

lemma step_of_inj: "step_of c = Some t \<Longrightarrow> step_of c' = Some t \<Longrightarrow> c = c'"
  by (cases c; cases c') auto

lemma spec_eye_pass_frameTiming:
  "spec_eye_pass (s\<lparr>frameTiming := t\<rparr>) e pose = spec_eye_pass s e pose"
  by (simp add: spec_eye_pass_def)

text \<open>
  Claim C8.  Read as steps of the specification, with every argument, the calls of one
  \<^verbatim>\<open>render\<close> are those the specification prescribes, in its order: BeginFrame on the
  device; the target's framebuffer bound and cleared to opaque black in colour and depth;
  one orientation sample at the midpoint of the timing that BeginFrame returned; then for
  the eye \<^verbatim>\<open>EyeRenderOrder[0]\<close> and after it for the eye \<^verbatim>\<open>EyeRenderOrder[1]\<close> the pass
  BeginEyeRender, the eye's viewport, the view and projection matrices computed from the
  eye's render description and pose, the scene render with these two matrices, and
  EndEyeRender with the pose and the eye's texture; and one EndFrame, which is the last
  call.  The token that BeginFrame returns is kept in \<^verbatim>\<open>frameTiming_\<close>.  (Before
  BeginFrame the function unbinds the buffers and the program; these calls are none of
  the specification's steps.)
\<close>

theorem render_step_order:
  "List.map_filter step_of (snd (render lib r s)) = spec_frame_steps r s
   \<and> frameTiming (fst (render lib r s)) = ret_BeginFrame r
   \<and> last (snd (render lib r s)) = ovrHmd_EndFrame (hmd s)"
proof -
  have "List.map_filter step_of (snd (render lib r s)) = spec_frame_steps r s"
    unfolding render_calls map_filter_append getInput_steps render_eye_steps
      spec_eye_pass_getInput spec_eye_pass_frameTiming spec_frame_steps_def upt2
    by (simp add: getInput_keeps List.map_filter_simps)
  moreover have "frameTiming (fst (render lib r s)) = ret_BeginFrame r"
    by (simp add: render_state getInput_keeps)
  moreover have "last (snd (render lib r s)) = ovrHmd_EndFrame (hmd s)"
    unfolding render_calls by simp
  ultimately show ?thesis by simp
qed

text \<open>
  Claim C8, at a device whose render order is right eye, then left eye, and an object
  whose eye textures are set for the combined size 1281 x 800.
\<close>

theorem render_step_order_witness:
  "(let view = ovr2glmMat (Transposed (Mult (Translation (ovrVector3f 0 0 0))
                 (Matrix4f (Inverted (Quatf (ovrQuatf (15 / 100) (18 / 100) (3 / 10) 1))))));
        projection = ovr2glmMat (Transposed (ovrMatrix4f_Projection sample_fov (1 / 100) 10000 True));
        s = setEyeTexture sample_oculus
    in List.map_filter step_of (snd (render sample_library
         \<lparr>ret_BeginFrame = \<lparr>ScanoutMidpointSeconds = 1 / 60\<rparr>,
          ret_GetSensorState = sample_sensor 1 (ovrQuatf (15 / 100) (18 / 100) (3 / 10) 1),
          ret_BeginEyeRender = (\<lambda>i. sample_pose)\<rparr> s))
       = [BeginFrame 1 0,
          BindTarget GL_FRAMEBUFFER 1, ClearColour 0 0 0 1,
          ClearTarget [GL_COLOR_BUFFER_BIT, GL_DEPTH_BUFFER_BIT],
          SampleInput 1 (1 / 60),
          BeginEyeRender 1 ovrEye_Right,
          SetViewport \<lparr>Pos = \<lparr>x = 641, y = 0\<rparr>, Size = \<lparr>w = 640, h = 800\<rparr>\<rparr>,
          RuntimeProjection sample_fov (1 / 100) 10000 True,
          ComputeMatrix view, ComputeMatrix projection,
          SceneRender view projection,
          EndEyeRender 1 ovrEye_Right sample_pose (eyeTexture s 1),
          BeginEyeRender 1 ovrEye_Left,
          SetViewport \<lparr>Pos = \<lparr>x = 0, y = 0\<rparr>, Size = \<lparr>w = 640, h = 800\<rparr>\<rparr>,
          RuntimeProjection sample_fov (1 / 100) 10000 True,
          ComputeMatrix view, ComputeMatrix projection,
          SceneRender view projection,
          EndEyeRender 1 ovrEye_Left sample_pose (eyeTexture s 0),
          EndFrame 1])"
proof -
  have hd: "hmd (setEyeTexture sample_oculus) = 1" "FBOId (setEyeTexture sample_oculus) = 1"
    "hmdDesc (setEyeTexture sample_oculus) = sample_hmdDesc"
    "eyeRenderDesc (setEyeTexture sample_oculus)
       = (\<lambda>i. \<lparr>Fov = sample_fov, ViewAdjust = ovrVector3f 0 0 0\<rparr>)"
    by (simp_all add: setEyeTexture_def Let_def sample_oculus_def)
  have vp: "RenderViewport (Header (eyeTexture (setEyeTexture sample_oculus) 0))
              = \<lparr>Pos = \<lparr>x = 0, y = 0\<rparr>, Size = \<lparr>w = 640, h = 800\<rparr>\<rparr>"
           "RenderViewport (Header (eyeTexture (setEyeTexture sample_oculus) 1))
              = \<lparr>Pos = \<lparr>x = 641, y = 0\<rparr>, Size = \<lparr>w = 640, h = 800\<rparr>\<rparr>"
    unfolding setEyeTexture_left setEyeTexture_right
    by (simp_all add: sample_oculus_def c_div_def)
  have vp1: "RenderViewport (Header (eyeTexture (setEyeTexture sample_oculus) (Suc 0)))
              = \<lparr>Pos = \<lparr>x = 641, y = 0\<rparr>, Size = \<lparr>w = 640, h = 800\<rparr>\<rparr>"
    using vp(2) by simp
  have p: "Orientation sample_pose = ovrQuatf (15 / 100) (18 / 100) (3 / 10) 1"
    by (simp add: sample_pose_def)
  show ?thesis
    unfolding Let_def render_step_order [THEN conjunct1] spec_frame_steps_def upt2
      spec_eye_pass_def spec_view_matrix_def spec_projection_matrix_def hd
    by (simp add: sample_hmdDesc_def vp(1) vp1 p)
qed

section \<open>Construction: device, debug device, and the single instance\<close>

lemma computeSizes_keeps:
  "hmd (computeSizes p s) = hmd s" "usingDebugHmd (computeSizes p s) = usingDebugHmd s"
  by (simp_all add: computeSizes_def Let_def)

lemma setEyeTexture_keeps:
  "hmd (setEyeTexture s) = hmd s" "usingDebugHmd (setEyeTexture s) = usingDebugHmd s"
  by (simp_all add: setEyeTexture_def Let_def)

lemma initTexture_keeps:
  "hmd (initTexture p s) = hmd s" "usingDebugHmd (initTexture p s) = usingDebugHmd s"
  by (simp_all add: initTexture_def)

lemma initFBO_Inr:
  "initFBO p s = Inr s' \<Longrightarrow> s' = s\<lparr>FBOId := glGenFramebuffers p\<rparr>"
  by (auto simp: initFBO_def Let_def split: if_splits)

lemma initDepthBuffer_Inr:
  "initDepthBuffer p s = Inr s' \<Longrightarrow> s' = s\<lparr>depthBufferId := glGenRenderbuffers p\<rparr>"
  by (auto simp: initDepthBuffer_def Let_def split: if_splits)

lemma setCfg_Inr:
  "setCfg p s = Inr s' \<Longrightarrow> \<exists>c. s' = s\<lparr>cfg := c\<rparr>"
  by (auto simp: setCfg_def Let_def split_beta split: if_splits)

lemma and_then_Inr: "and_then r f = Inr v \<longleftrightarrow> (\<exists>u. r = Inr u \<and> f u = Inr v)"
  by (cases r) (simp_all add: and_then_def)

lemma Oculus_Inr:
  fixes mem :: "'a::{minus,zero} oculus"
  assumes "Oculus lib p T alreadyCreated mem = Inr (s, flags)"
  shows "\<not> alreadyCreated T \<and> flags = alreadyCreated(T := True) \<and> hmd s \<noteq> 0
       \<and> (if ovrHmd_Create p 0 = 0
           then hmd s = ovrHmd_CreateDebug p ovrHmd_DK1 \<and> usingDebugHmd s
           else hmd s = ovrHmd_Create p 0 \<and> \<not> usingDebugHmd s)"
proof -
  from assms have nc: "\<not> alreadyCreated T"
    by (auto simp: Oculus_def Let_def)
  from assms nc obtain s2 s8 s9 s10 :: "'a oculus" where
    A: "hmd s2 \<noteq> 0 \<and> (if ovrHmd_Create p 0 = 0
           then hmd s2 = ovrHmd_CreateDebug p ovrHmd_DK1 \<and> usingDebugHmd s2
           else hmd s2 = ovrHmd_Create p 0 \<and> \<not> usingDebugHmd s2)"
    and B: "hmd s8 = hmd s2 \<and> usingDebugHmd s8 = usingDebugHmd s2"
    and C: "initDepthBuffer p (initTexture p s8) = Inr s9"
    and D: "setCfg p (computeSizes p s9) = Inr s10"
    and E: "hmd s = hmd s10 \<and> usingDebugHmd s = usingDebugHmd s10 \<and> flags = alreadyCreated(T := True)"
    apply (simp add: Oculus_def Let_def and_then_Inr split_beta)
    apply (elim exE conjE)
    subgoal premises prems for u ua ub uc
      apply (rule that [of u ua ub uc])
      using prems
      by (auto simp: computeSizes_keeps setEyeTexture_keeps dest!: initFBO_Inr split: if_splits)
    done
  from C have C': "hmd s9 = hmd s8 \<and> usingDebugHmd s9 = usingDebugHmd s8"
    by (auto dest!: initDepthBuffer_Inr simp: initTexture_keeps)
  from D have D': "hmd s10 = hmd s9 \<and> usingDebugHmd s10 = usingDebugHmd s9"
    by (auto dest!: setCfg_Inr simp: computeSizes_keeps)
  from nc A B C' D' E show ?thesis by simp
qed

lemma Oculus_alreadyCreated:
  "alreadyCreated T \<Longrightarrow> Oculus lib p T alreadyCreated mem = Inl Assert_not_alreadyCreated"
  by (simp add: Oculus_def Let_def)


lemma Oculus_twice_same_scene_type:
  fixes mem :: "'a::{minus,zero} oculus" and mem' :: "'b::{minus,zero} oculus"
  assumes "Oculus lib p T alreadyCreated mem = Inr (s, flags)"
  shows "Oculus lib' p' T flags mem' = Inl Assert_not_alreadyCreated"
proof -
  from Oculus_Inr [OF assms] have "flags T" by simp
  then show ?thesis by (rule Oculus_alreadyCreated)
qed



lemma sample_construction:
  "0 < device \<or> 0 < debug \<Longrightarrow> \<not> flags T
   \<Longrightarrow> \<not> isl (Oculus sample_library (sample_platform device debug) T flags sample_oculus)"
  by (auto simp add: Oculus_def sample_platform_def sample_library_def sample_oculus_def and_then_def
      computeSizes_def Let_def initFBO_def initTexture_def initDepthBuffer_def setCfg_def
      setEyeTexture_def sample_hmdDesc_def)

lemma not_isl_projr: "\<not> isl v \<Longrightarrow> v = Inr (fst (projr v), snd (projr v))"
  by (cases v) simp_all


text \<open>
  Claim C5 at two scene classes.  After \<^verbatim>\<open>Oculus<SceneA>\<close> has been constructed and while
  it lives, the constructor of \<^verbatim>\<open>Oculus<SceneB>\<close> completes: its assertion reads the flag
  of \<^verbatim>\<open>Oculus<SceneB>\<close>, which is still false.  A second \<^verbatim>\<open>Oculus<SceneA>\<close> is refused
  (in general: \<open>Oculus_twice_same_scene_type\<close>).
\<close>

theorem Oculus_second_scene_type_constructed:
  "\<not> isl (Oculus sample_library (sample_platform 5 7) SceneA (\<lambda>T. False) sample_oculus)
   \<and> \<not> isl (Oculus sample_library (sample_platform 5 7) SceneB
        (snd (projr (Oculus sample_library (sample_platform 5 7) SceneA (\<lambda>T. False) sample_oculus)))
        sample_oculus)
   \<and> isl (Oculus sample_library (sample_platform 5 7) SceneA
        (snd (projr (Oculus sample_library (sample_platform 5 7) SceneA (\<lambda>T. False) sample_oculus)))
        sample_oculus)"
proof -
  let ?first = "Oculus sample_library (sample_platform 5 7) SceneA (\<lambda>T. False) sample_oculus"
  have 1: "\<not> isl ?first" by (rule sample_construction) simp_all
  from Oculus_Inr [OF not_isl_projr [OF 1]]
  have f: "snd (projr ?first) = (\<lambda>T. False)(SceneA := True)" by simp
  have 2: "\<not> isl (Oculus sample_library (sample_platform 5 7) SceneB (snd (projr ?first)) sample_oculus)"
    by (rule sample_construction) (simp_all add: f)
  have 3: "isl (Oculus sample_library (sample_platform 5 7) SceneA (snd (projr ?first)) sample_oculus)"
    by (simp add: Oculus_alreadyCreated f)
  from 1 2 3 show ?thesis by simp
qed

end
